theory Spec2Isabelle
  imports Main
begin

section \<open>Text helpers: the pieces of Go's \<^verbatim>\<open>fmt\<close> and \<^verbatim>\<open>strings\<close> that graphb calls\<close>

text \<open>
  A Go string is a sequence of bytes; it is modelled as \<^typ>\<open>string\<close> (a list of
  \<^typ>\<open>char\<close>, one per byte). The double quote and the backslash are written with
  their byte values.
\<close>

abbreviation DQ :: char where "DQ \<equiv> CHR 0x22"

abbreviation BS :: char where "BS \<equiv> CHR 0x5C"

text \<open>\<^verbatim>\<open>fmt.Sprintf("%t", v)\<close>\<close>

definition fmt_t :: "bool \<Rightarrow> string" where
  "fmt_t v = (if v then ''true'' else ''false'')"

text \<open>
  \<^verbatim>\<open>fmt.Sprintf("%d", v)\<close>: the decimal digits, most significant first, after a minus
  sign for a negative value. Go's \<^verbatim>\<open>int\<close> is modelled as \<^typ>\<open>int\<close>; graphb does no
  arithmetic on argument values, so no wrap-around can be observed.
\<close>

definition digit_char :: "nat \<Rightarrow> char" where
  "digit_char d = char_of (48 + d)"

function decimal :: "nat \<Rightarrow> string" where
  "decimal n = (if n < 10 then [digit_char n] else decimal (n div 10) @ [digit_char (n mod 10)])"
  by pat_completeness auto
termination
  by (relation "measure id") auto

definition fmt_d :: "int \<Rightarrow> string" where
  "fmt_d v = (if v < 0 then CHR ''-'' # decimal (nat (- v)) else decimal (nat v))"

text \<open>
  \<^verbatim>\<open>fmt.Sprintf(`"%s"`, v)\<close>, \<^verbatim>\<open>fmt.Sprintf(`"\\"%s\\""`, v)\<close> and
  \<^verbatim>\<open>fmt.Sprintf(`"""%s"""`, v)\<close>. The format strings are raw string literals: a
  backslash in them is a backslash of the output.
\<close>

definition fmt_quoted :: "string \<Rightarrow> string" where
  "fmt_quoted v = [DQ] @ v @ [DQ]"

definition fmt_escaped_quoted :: "string \<Rightarrow> string" where
  "fmt_escaped_quoted v = [DQ, BS, BS, DQ] @ v @ [BS, BS, DQ, DQ]"

definition fmt_block :: "string \<Rightarrow> string" where
  "fmt_block v = [DQ, DQ, DQ] @ v @ [DQ, DQ, DQ]"

text \<open>
  \<^verbatim>\<open>strings.ToLower\<close> of Go's standard library. When every byte of the string is
  ASCII (below 0x80) it moves the bytes \<open>A\<close>..\<open>Z\<close> to \<open>a\<close>..\<open>z\<close> and keeps every
  other byte. Otherwise it maps \<^verbatim>\<open>unicode.ToLower\<close> over the runes of the string
  (which also rewrites ill-formed UTF-8); the Unicode tables are not modelled, and that
  mapping is the parameter \<open>ul\<close>.
\<close>

definition lower_char :: "char \<Rightarrow> char" where
  "lower_char c =
     (if 65 \<le> (of_char c :: nat) \<and> (of_char c :: nat) \<le> 90
      then char_of ((of_char c :: nat) + 32) else c)"

definition isASCII :: "string \<Rightarrow> bool" where
  "isASCII s = list_all (\<lambda>c. (of_char c :: nat) < 128) s"

definition ToLower :: "(string \<Rightarrow> string) \<Rightarrow> string \<Rightarrow> string" where
  "ToLower ul s = (if isASCII s then map lower_char s else ul s)"

text \<open>
  \<^verbatim>\<open>strings.Replace(s, `"`, `\"`, -1)\<close>: every double quote becomes backslash,
  double quote; every other byte is copied.
\<close>

fun escape_quotes :: "string \<Rightarrow> string" where
  "escape_quotes [] = []"
| "escape_quotes (c # cs) = (if c = DQ then [BS, DQ] else [c]) @ escape_quotes cs"

section \<open>Argument values (the second source file)\<close>

text \<open>
  \<^verbatim>\<open>argumentValue\<close> is an interface with one method, \<^verbatim>\<open>stringChan\<close>; its thirteen
  implementations are the constructors below, and \<open>NilValue\<close> is the nil interface
  value (the \<^verbatim>\<open>Value\<close> of the zero \<^verbatim>\<open>Argument{}\<close>). A \<^verbatim>\<open>time.Time\<close> is a
  value of the type parameter \<open>'t\<close>; the standard library's
  \<^verbatim>\<open>Format(time.RFC3339)\<close> is the parameter \<open>rfc\<close> of the rendering functions.
\<close>

datatype 't argumentValue =
    NilValue
  | argBool bool
  | argInt int
  | argString string
  | argQuotedString string
  | argBlockString string
  | argEnum string
  | argTime 't
  | argBoolSlice "bool list"
  | argIntSlice "int list"
  | argStringSlice "string list"
  | argEnumSlice "string list"
  | argumentCustom "'t Argument list"
  | argArgSlice "'t Argument list list"
and 't Argument =
    Argument (Argument_Name: string) (Argument_Value: "'t argumentValue")

text \<open>
  A channel fed by a goroutine is modelled by the tokens the goroutine sends before it
  closes the channel, in order: \<open>Some ts\<close>. \<open>None\<close> is a goroutine that panics
  (a method call on the nil interface value), which ends the whole program.
\<close>

type_synonym tokens = "string list option"

text \<open>
  The loop shared by the four slices of scalars:
  \<^verbatim>\<open>for i, v := range s { if i != 0 { tokenChan <- "," }; tokenChan <- Sprintf(f, v) }\<close>.
  \<open>i\<close> is the index of the head of the remaining slice.
\<close>

fun slice_loop :: "('a \<Rightarrow> string) \<Rightarrow> nat \<Rightarrow> 'a list \<Rightarrow> string list" where
  "slice_loop f i [] = []"
| "slice_loop f i (v # vs) = (if i \<noteq> 0 then ['',''] else []) @ [f v] @ slice_loop f (Suc i) vs"

text \<open>
  The rendering of a value, of an argument, and the two loops over arguments
  (\<^verbatim>\<open>argumentCustom.stringChan\<close> and \<^verbatim>\<open>argArgSlice.stringChan\<close>).
\<close>

fun argumentValue_stringChan :: "('t \<Rightarrow> string) \<Rightarrow> 't argumentValue \<Rightarrow> tokens"
  and Argument_stringChan :: "('t \<Rightarrow> string) \<Rightarrow> 't Argument \<Rightarrow> tokens"
  and argumentCustom_loop :: "('t \<Rightarrow> string) \<Rightarrow> nat \<Rightarrow> 't Argument list \<Rightarrow> tokens"
  and argArgSlice_loop :: "('t \<Rightarrow> string) \<Rightarrow> nat \<Rightarrow> 't Argument list list \<Rightarrow> tokens"
where
  "argumentValue_stringChan rfc NilValue = None"
| "argumentValue_stringChan rfc (argBool v) = Some [fmt_t v]"
| "argumentValue_stringChan rfc (argInt v) = Some [fmt_d v]"
| "argumentValue_stringChan rfc (argString v) = Some [fmt_quoted v]"
| "argumentValue_stringChan rfc (argQuotedString v) = Some [fmt_escaped_quoted v]"
| "argumentValue_stringChan rfc (argBlockString v) = Some [fmt_block v]"
| "argumentValue_stringChan rfc (argEnum v) = Some [v]"
| "argumentValue_stringChan rfc (argTime v) = Some [fmt_quoted (rfc v)]"
| "argumentValue_stringChan rfc (argBoolSlice s) = Some (''['' # slice_loop fmt_t 0 s @ ['']''])"
| "argumentValue_stringChan rfc (argIntSlice s) = Some (''['' # slice_loop fmt_d 0 s @ ['']''])"
| "argumentValue_stringChan rfc (argStringSlice s) =
     Some (''['' # slice_loop fmt_quoted 0 s @ ['']''])"
| "argumentValue_stringChan rfc (argEnumSlice s) =
     Some (''['' # slice_loop (\<lambda>v. v) 0 s @ ['']''])"
| "argumentValue_stringChan rfc (argumentCustom s) =
     (case argumentCustom_loop rfc 0 s of
        None \<Rightarrow> None
      | Some ts \<Rightarrow> Some (''{'' # ts @ [''}'']))"
| "argumentValue_stringChan rfc (argArgSlice s) =
     (case argArgSlice_loop rfc 0 s of
        None \<Rightarrow> None
      | Some ts \<Rightarrow> Some (''['' # ts @ ['']'']))"
| "Argument_stringChan rfc (Argument name val) =
     (case argumentValue_stringChan rfc val of
        None \<Rightarrow> None
      | Some ts \<Rightarrow> Some (name # '':'' # ts))"
| "argumentCustom_loop rfc i [] = Some []"
| "argumentCustom_loop rfc i (v # vs) =
     (case Argument_stringChan rfc v of
        None \<Rightarrow> None
      | Some ts \<Rightarrow>
          (case argumentCustom_loop rfc (Suc i) vs of
             None \<Rightarrow> None
           | Some rest \<Rightarrow> Some ((if i \<noteq> 0 then ['',''] else []) @ ts @ rest)))"
| "argArgSlice_loop rfc i [] = Some []"
| "argArgSlice_loop rfc i (v # vs) =
     (case argumentValue_stringChan rfc (argumentCustom v) of
        None \<Rightarrow> None
      | Some ts \<Rightarrow>
          (case argArgSlice_loop rfc (Suc i) vs of
             None \<Rightarrow> None
           | Some rest \<Rightarrow> Some ((if i \<noteq> 0 then ['',''] else []) @ ts @ rest)))"

text \<open>The public constructors: each wraps its payload in the matching variant.\<close>

definition ArgumentBool :: "string \<Rightarrow> bool \<Rightarrow> 't Argument" where
  "ArgumentBool name val = Argument name (argBool val)"

definition ArgumentInt :: "string \<Rightarrow> int \<Rightarrow> 't Argument" where
  "ArgumentInt name val = Argument name (argInt val)"

definition ArgumentString :: "string \<Rightarrow> string \<Rightarrow> 't Argument" where
  "ArgumentString name val = Argument name (argString val)"

definition ArgumentQuotedString :: "string \<Rightarrow> string \<Rightarrow> 't Argument" where
  "ArgumentQuotedString name val = Argument name (argQuotedString val)"

definition ArgumentBlockString :: "string \<Rightarrow> string \<Rightarrow> 't Argument" where
  "ArgumentBlockString name val = Argument name (argBlockString val)"

definition ArgumentEnum :: "string \<Rightarrow> string \<Rightarrow> 't Argument" where
  "ArgumentEnum name val = Argument name (argEnum val)"

definition ArgumentTime :: "string \<Rightarrow> 't \<Rightarrow> 't Argument" where
  "ArgumentTime name val = Argument name (argTime val)"

definition ArgumentBoolSlice :: "string \<Rightarrow> bool list \<Rightarrow> 't Argument" where
  "ArgumentBoolSlice name vals = Argument name (argBoolSlice vals)"

definition ArgumentIntSlice :: "string \<Rightarrow> int list \<Rightarrow> 't Argument" where
  "ArgumentIntSlice name vals = Argument name (argIntSlice vals)"

definition ArgumentStringSlice :: "string \<Rightarrow> string list \<Rightarrow> 't Argument" where
  "ArgumentStringSlice name vals = Argument name (argStringSlice vals)"

definition ArgumentEnumSlice :: "string \<Rightarrow> string list \<Rightarrow> 't Argument" where
  "ArgumentEnumSlice name vals = Argument name (argEnumSlice vals)"

definition ArgumentCustomType :: "string \<Rightarrow> 't Argument list \<Rightarrow> 't Argument" where
  "ArgumentCustomType name vals = Argument name (argumentCustom vals)"

definition ArgumentSlice :: "string \<Rightarrow> 't Argument list list \<Rightarrow> 't Argument" where
  "ArgumentSlice name vals = Argument name (argArgSlice vals)"

text \<open>
  The \<^verbatim>\<open>interface{}\<close> parameter of \<^verbatim>\<open>ArgumentAny\<close>: a value together with its dynamic
  type. The first seven constructors are the dynamic types the type switch names; the
  others stand for every other dynamic type: the nil interface, another integer type,
  a pointer, a slice of interfaces, and \<open>GoOther T v\<close> for a value printed \<open>v\<close> of
  any further type \<open>T\<close> (a named type such as \<^verbatim>\<open>type ID string\<close> included).
\<close>

datatype 't go_value =
    GoBool bool
  | GoBoolSlice "bool list"
  | GoInt int
  | GoIntSlice "int list"
  | GoString string
  | GoStringSlice "string list"
  | GoTime 't
  | GoNil
  | GoInt64 int
  | GoUint nat
  | GoStringPtr string
  | GoTimePtr 't
  | GoInterfaceSlice "'t go_value list"
  | GoOther string string

text \<open>
  Modelled from the spec: the error types are declared in a file that is not part of
  the sources at hand; the spec gives \<open>UnsupportedArgumentType\<close> (carrying the value),
  \<open>InvalidOperationType\<close> (carrying the type), \<open>InvalidName\<close> (carrying the kind of
  name and the text) and \<open>MissingField\<close>, which the code calls
  \<^verbatim>\<open>ArgumentTypeNotSupportedErr\<close>, \<^verbatim>\<open>InvalidOperationTypeErr\<close>, \<^verbatim>\<open>InvalidNameErr\<close>
  and \<^verbatim>\<open>NilFieldErr\<close>. Of the kinds of name the code at hand uses \<^verbatim>\<open>operationName\<close>.
  \<^verbatim>\<open>errors.WithStack\<close> records a stack trace around an error and keeps the error as
  its cause; the model keeps the cause only.
\<close>

datatype nameType = operationName | fieldName | aliasName

datatype 't error =
    ArgumentTypeNotSupportedErr "'t go_value"
  | InvalidOperationTypeErr string
  | InvalidNameErr nameType string
  | NilFieldErr

text \<open>
  \<^verbatim>\<open>ArgumentAny\<close>: a type switch on the dynamic type; the second component is the
  error, \<open>None\<close> for Go's nil error. \<^verbatim>\<open>Argument{}\<close> is the empty name with the nil
  value.
\<close>

fun ArgumentAny :: "string \<Rightarrow> 't go_value \<Rightarrow> 't Argument \<times> 't error option" where
  "ArgumentAny name (GoBool v) = (ArgumentBool name v, None)"
| "ArgumentAny name (GoBoolSlice v) = (ArgumentBoolSlice name v, None)"
| "ArgumentAny name (GoInt v) = (ArgumentInt name v, None)"
| "ArgumentAny name (GoIntSlice v) = (ArgumentIntSlice name v, None)"
| "ArgumentAny name (GoString v) = (ArgumentString name v, None)"
| "ArgumentAny name (GoStringSlice v) = (ArgumentStringSlice name v, None)"
| "ArgumentAny name (GoTime v) = (ArgumentTime name v, None)"
| "ArgumentAny name val = (Argument [] NilValue, Some (ArgumentTypeNotSupportedErr val))"

section \<open>Fields\<close>

text \<open>
  Modelled from the spec: the regular expression \<^verbatim>\<open>validName\<close> is declared outside the
  sources at hand; the spec gives the grammar \<^verbatim>\<open>/^[_A-Za-z][_0-9A-Za-z]*$/\<close>. Go's
  \<^verbatim>\<open>$\<close> matches at the end of the text only.
\<close>

definition name_start :: "char \<Rightarrow> bool" where
  "name_start c =
     (let n = (of_char c :: nat) in c = CHR ''_'' \<or> (65 \<le> n \<and> n \<le> 90) \<or> (97 \<le> n \<and> n \<le> 122))"

definition name_char :: "char \<Rightarrow> bool" where
  "name_char c = (name_start c \<or> (48 \<le> (of_char c :: nat) \<and> (of_char c :: nat) \<le> 57))"

fun validName :: "string \<Rightarrow> bool" where
  "validName [] = False"
| "validName (c # cs) = (name_start c \<and> list_all name_char cs)"

text \<open>
  Modelled from the spec: the type \<^verbatim>\<open>Field\<close> and its methods \<^verbatim>\<open>check\<close> and
  \<^verbatim>\<open>stringChan\<close> are in a file that is not part of the sources at hand. The spec:
  a Field is \<open>{name, alias, arguments, subfields}\<close>; an empty alias is no alias; a
  slot of a field list is a pointer, \<open>None\<close> when nil.
\<close>

datatype 't Field =
    Field (Field_Name: string) (Field_Alias: string)
      (Field_Arguments: "'t Argument list") (Field_Fields: "'t Field option list")

text \<open>
  Modelled from the spec: validation of a Field ``recursively checks this field's name
  (if aliased, the alias; otherwise the field name) against the name grammar, then
  validates every subfield'', failing on the first failure; a nil slot in the subfield
  list is \<open>MissingField\<close>.
\<close>

fun Field_check :: "'t Field \<Rightarrow> 't error option"
  and Field_check_subfields :: "'t Field option list \<Rightarrow> 't error option"
where
  "Field_check (Field name alias args subs) =
     (if alias \<noteq> [] then
        (if validName alias then Field_check_subfields subs
         else Some (InvalidNameErr aliasName alias))
      else
        (if validName name then Field_check_subfields subs
         else Some (InvalidNameErr fieldName name)))"
| "Field_check_subfields [] = None"
| "Field_check_subfields (None # fs) = Some NilFieldErr"
| "Field_check_subfields (Some f # fs) =
     (case Field_check f of Some e \<Rightarrow> Some e | None \<Rightarrow> Field_check_subfields fs)"

text \<open>
  Modelled from the spec: a Field ``emits optional alias, \<open>:\<close> if aliased, field name,
  then if arguments exist \<open>(\<close> + comma-joined argument token streams + \<open>)\<close>, then if
  subfields exist \<open>{\<close> + comma-joined subfield token streams + \<open>}\<close>''. The
  comma-joined argument streams are those of \<open>argumentCustom_loop\<close>. Rendering a nil
  slot dereferences a nil pointer: the goroutine panics.
\<close>

fun Field_stringChan :: "('t \<Rightarrow> string) \<Rightarrow> 't Field \<Rightarrow> tokens"
  and Field_subfields_loop :: "('t \<Rightarrow> string) \<Rightarrow> nat \<Rightarrow> 't Field option list \<Rightarrow> tokens"
where
  "Field_stringChan rfc (Field name alias args subs) =
     (case (if args = [] then Some []
            else (case argumentCustom_loop rfc 0 args of
                    None \<Rightarrow> None
                  | Some ts \<Rightarrow> Some (''('' # ts @ ['')'']))) of
        None \<Rightarrow> None
      | Some ats \<Rightarrow>
          (case (if subs = [] then Some []
                 else (case Field_subfields_loop rfc 0 subs of
                         None \<Rightarrow> None
                       | Some ts \<Rightarrow> Some (''{'' # ts @ [''}'']))) of
             None \<Rightarrow> None
           | Some sts \<Rightarrow>
               Some ((if alias \<noteq> [] then [alias, '':''] else []) @ [name] @ ats @ sts)))"
| "Field_subfields_loop rfc i [] = Some []"
| "Field_subfields_loop rfc i (None # fs) = None"
| "Field_subfields_loop rfc i (Some f # fs) =
     (case Field_stringChan rfc f of
        None \<Rightarrow> None
      | Some ts \<Rightarrow>
          (case Field_subfields_loop rfc (Suc i) fs of
             None \<Rightarrow> None
           | Some rest \<Rightarrow> Some ((if i \<noteq> 0 then ['',''] else []) @ ts @ rest)))"

section \<open>Queries (\<^verbatim>\<open>query.go\<close>)\<close>

text \<open>
  \<^verbatim>\<open>operationType\<close> is a string type (the code converts it with \<^verbatim>\<open>string(q.Type)\<close>).
\<close>

record 't Query =
  Query_Type :: string
  Query_Name :: string
  Query_Fields :: "'t Field option list"

text \<open>
  Modelled from the spec: \<^verbatim>\<open>isValidOperationType\<close> is declared outside the sources at
  hand; the spec: the operation type ``is one of the three recognized kinds'', query,
  mutation, subscription, whose keywords are lowercase.
\<close>

definition isValidOperationType :: "string \<Rightarrow> bool" where
  "isValidOperationType t = (t = ''query'' \<or> t = ''mutation'' \<or> t = ''subscription'')"

definition checkName :: "'t Query \<Rightarrow> 't error option" where
  "checkName q =
     (if Query_Name q \<noteq> [] \<and> \<not> validName (Query_Name q)
      then Some (InvalidNameErr operationName (Query_Name q))
      else None)"

definition check :: "'t Query \<Rightarrow> 't error option" where
  "check q =
     (if \<not> isValidOperationType (Query_Type q)
      then Some (InvalidOperationTypeErr (Query_Type q))
      else (case checkName q of Some err \<Rightarrow> Some err | None \<Rightarrow> None))"

text \<open>
  The unexported \<^verbatim>\<open>stringChan\<close>: the tokens its goroutine sends. The loop sends the
  tokens of each field and a comma after each.
\<close>

fun Query_fields_loop :: "('t \<Rightarrow> string) \<Rightarrow> 't Field option list \<Rightarrow> tokens" where
  "Query_fields_loop rfc [] = Some []"
| "Query_fields_loop rfc (None # fs) = None"
| "Query_fields_loop rfc (Some f # fs) =
     (case Field_stringChan rfc f of
        None \<Rightarrow> None
      | Some ts \<Rightarrow>
          (case Query_fields_loop rfc fs of
             None \<Rightarrow> None
           | Some rest \<Rightarrow> Some (ts @ ['',''] @ rest)))"

definition Query_stringChan ::
  "(string \<Rightarrow> string) \<Rightarrow> ('t \<Rightarrow> string) \<Rightarrow> 't Query \<Rightarrow> tokens" where
  "Query_stringChan ul rfc q =
     (case Query_fields_loop rfc (Query_Fields q) of
        None \<Rightarrow> None
      | Some fts \<Rightarrow>
          Some ([ToLower ul (Query_Type q)]
                @ (if Query_Name q \<noteq> [] then ['' '', Query_Name q] else [])
                @ [''{''] @ fts @ [''}'']))"

text \<open>
  A channel as a caller of \<^verbatim>\<open>StringChan\<close> holds it: the nil channel; a channel made
  and closed before it is returned; or a channel fed by a goroutine, with the tokens
  that goroutine sends before closing it.
\<close>

datatype chan = NilChan | ClosedChan | GoroutineChan tokens

text \<open>
  The loop of \<^verbatim>\<open>StringChan\<close> over \<^verbatim>\<open>q.Fields\<close>: the first nil slot or failing field
  ends it.
\<close>

fun StringChan_loop :: "'t Field option list \<Rightarrow> 't error option" where
  "StringChan_loop [] = None"
| "StringChan_loop (None # fs) = Some NilFieldErr"
| "StringChan_loop (Some f # fs) =
     (case Field_check f of Some err \<Rightarrow> Some err | None \<Rightarrow> StringChan_loop fs)"

definition StringChan ::
  "(string \<Rightarrow> string) \<Rightarrow> ('t \<Rightarrow> string) \<Rightarrow> 't Query \<Rightarrow> chan \<times> 't error option" where
  "StringChan ul rfc q =
     (case check q of
        Some err \<Rightarrow> (ClosedChan, Some err)
      | None \<Rightarrow>
          (case StringChan_loop (Query_Fields q) of
             Some err \<Rightarrow> (ClosedChan, Some err)
           | None \<Rightarrow> (GoroutineChan (Query_stringChan ul rfc q), None)))"

text \<open>
  What a call can do: return a value, end the program by a panic, or block for ever.
  \<open>range_chan\<close> is Go's \<^verbatim>\<open>for str := range c\<close>, collecting what it receives: a
  receive on the nil channel blocks for ever, a closed channel ends the loop.
\<close>

datatype 'a outcome = Returns 'a | Panics | Blocks

fun range_chan :: "chan \<Rightarrow> string list outcome" where
  "range_chan NilChan = Blocks"
| "range_chan ClosedChan = Returns []"
| "range_chan (GoroutineChan None) = Panics"
| "range_chan (GoroutineChan (Some ts)) = Returns ts"

text \<open>
  Modelled from the spec: \<^verbatim>\<open>StringFromChan\<close> is declared outside the sources at hand;
  the spec: it ``drains the full token sequence into one string''.
\<close>

fun StringFromChan :: "chan \<Rightarrow> string outcome" where
  "StringFromChan c =
     (case range_chan c of Returns ts \<Rightarrow> Returns (concat ts) | Panics \<Rightarrow> Panics | Blocks \<Rightarrow> Blocks)"

text \<open>\<^verbatim>\<open>fmt.Sprintf(`{"query":"%s"}`, s)\<close>\<close>

definition query_wrapper :: "string \<Rightarrow> string" where
  "query_wrapper s = [CHR ''{'', DQ] @ ''query'' @ [DQ, CHR '':'', DQ] @ s @ [DQ, CHR ''}'']"

definition JsonBody ::
  "(string \<Rightarrow> string) \<Rightarrow> ('t \<Rightarrow> string) \<Rightarrow> 't Query \<Rightarrow> (string \<times> 't error option) outcome"
where
  "JsonBody ul rfc q =
     (case StringChan ul rfc q of
        (strCh, Some err) \<Rightarrow> Returns ([], Some err)
      | (strCh, None) \<Rightarrow>
          (case StringFromChan strCh of
             Returns s \<Rightarrow> Returns (query_wrapper (escape_quotes s), None)
           | Panics \<Rightarrow> Panics
           | Blocks \<Rightarrow> Blocks))"

definition MakeQuery :: "string \<Rightarrow> 't Query" where
  "MakeQuery Type = \<lparr>Query_Type = Type, Query_Name = [], Query_Fields = []\<rparr>"

definition SetName :: "string \<Rightarrow> 't Query \<Rightarrow> 't Query" where
  "SetName name q = q\<lparr>Query_Name := name\<rparr>"

definition SetFields :: "'t Field option list \<Rightarrow> 't Query \<Rightarrow> 't Query" where
  "SetFields fs q = q\<lparr>Query_Fields := fs\<rparr>"

definition AddFields :: "'t Field option list \<Rightarrow> 't Query \<Rightarrow> 't Query" where
  "AddFields fs q = q\<lparr>Query_Fields := Query_Fields q @ fs\<rparr>"

section \<open>Notions of the specification\<close>


text \<open>The rendered text of a token sequence: the concatenation of its tokens.\<close>

definition rendered :: "tokens \<Rightarrow> string option" where
  "rendered r = map_option concat r"

text \<open>The runtime shapes that the dispatching constructor supports.\<close>

fun supported :: "'t go_value \<Rightarrow> bool" where
  "supported (GoBool v) = True"
| "supported (GoBoolSlice v) = True"
| "supported (GoInt v) = True"
| "supported (GoIntSlice v) = True"
| "supported (GoString v) = True"
| "supported (GoStringSlice v) = True"
| "supported (GoTime v) = True"
| "supported v = False"

text \<open>A nil slot somewhere in a field list, at any depth.\<close>

fun Field_has_nil :: "'t Field \<Rightarrow> bool"
  and fields_have_nil :: "'t Field option list \<Rightarrow> bool"
where
  "Field_has_nil (Field name alias args subs) = fields_have_nil subs"
| "fields_have_nil [] = False"
| "fields_have_nil (None # fs) = True"
| "fields_have_nil (Some f # fs) = (Field_has_nil f \<or> fields_have_nil fs)"

text \<open>
  Every violation of a tree of fields, in the order of validation: a field's name
  before its subfields, the slots of a list from left to right.
\<close>

fun Field_violations :: "'t Field \<Rightarrow> 't error list"
  and fields_violations :: "'t Field option list \<Rightarrow> 't error list"
where
  "Field_violations (Field name alias args subs) =
     (if alias \<noteq> [] then (if validName alias then [] else [InvalidNameErr aliasName alias])
      else (if validName name then [] else [InvalidNameErr fieldName name]))
     @ fields_violations subs"
| "fields_violations [] = []"
| "fields_violations (None # fs) = NilFieldErr # fields_violations fs"
| "fields_violations (Some f # fs) = Field_violations f @ fields_violations fs"

definition Query_violations :: "'t Query \<Rightarrow> 't error list" where
  "Query_violations q =
     (if isValidOperationType (Query_Type q) then [] else [InvalidOperationTypeErr (Query_Type q)])
     @ (if Query_Name q \<noteq> [] \<and> \<not> validName (Query_Name q)
        then [InvalidNameErr operationName (Query_Name q)] else [])
     @ fields_violations (Query_Fields q)"

text \<open>
  A JSON string literal (RFC 8259, section 7), read from the byte after its opening
  quote: the result is the text after its closing quote, \<open>None\<close> when the literal is
  malformed (a control byte, a backslash that starts no escape, or no closing quote).
  Bytes from 0x80 up are passed here; that they encode characters is \<open>utf8_wf\<close>
  below.
\<close>

definition hex_digit :: "char \<Rightarrow> bool" where
  "hex_digit c =
     (let n = (of_char c :: nat)
      in (48 \<le> n \<and> n \<le> 57) \<or> (65 \<le> n \<and> n \<le> 70) \<or> (97 \<le> n \<and> n \<le> 102))"

definition simple_escape :: "char \<Rightarrow> bool" where
  "simple_escape c = (c = DQ \<or> c = BS \<or> c \<in> set ''/bfnrt'')"

fun json_string_rest :: "string \<Rightarrow> string option" where
  "json_string_rest [] = None"
| "json_string_rest [c] = (if c = DQ then Some [] else None)"
| "json_string_rest (c # e # r) =
     (if c = DQ then Some (e # r)
      else if c = BS then
        (if simple_escape e then json_string_rest r
         else if e = CHR ''u'' then
           (case r of
              h1 # h2 # h3 # h4 # r' \<Rightarrow>
                (if hex_digit h1 \<and> hex_digit h2 \<and> hex_digit h3 \<and> hex_digit h4
                 then json_string_rest r' else None)
            | _ \<Rightarrow> None)
         else None)
      else if (of_char c :: nat) < 32 then None
      else json_string_rest (e # r))"

text \<open>
  Well-formed UTF-8 (RFC 3629; RFC 8259, section 8.1, requires it of a JSON text): a
  sequence of ASCII bytes and of the two-, three- and four-byte forms, without
  overlong forms, surrogates or code points above U+10FFFF.
\<close>

definition utf8_cont :: "char \<Rightarrow> bool" where
  "utf8_cont c = (128 \<le> (of_char c :: nat) \<and> (of_char c :: nat) \<le> 191)"

definition in_range :: "nat \<Rightarrow> nat \<Rightarrow> char \<Rightarrow> bool" where
  "in_range lo hi c = (lo \<le> (of_char c :: nat) \<and> (of_char c :: nat) \<le> hi)"

fun utf8_wf :: "string \<Rightarrow> bool" where
  "utf8_wf [] = True"
| "utf8_wf (b # bs) =
     (if (of_char b :: nat) < 128 then utf8_wf bs
      else if in_range 194 223 b then
        (case bs of c1 # r \<Rightarrow> utf8_cont c1 \<and> utf8_wf r | _ \<Rightarrow> False)
      else if in_range 224 239 b then
        (case bs of
           c1 # c2 # r \<Rightarrow>
             (if (of_char b :: nat) = 224 then in_range 160 191 c1
              else if (of_char b :: nat) = 237 then in_range 128 159 c1
              else utf8_cont c1)
             \<and> utf8_cont c2 \<and> utf8_wf r
         | _ \<Rightarrow> False)
      else if in_range 240 244 b then
        (case bs of
           c1 # c2 # c3 # r \<Rightarrow>
             (if (of_char b :: nat) = 240 then in_range 144 191 c1
              else if (of_char b :: nat) = 244 then in_range 128 143 c1
              else utf8_cont c1)
             \<and> utf8_cont c2 \<and> utf8_cont c3 \<and> utf8_wf r
         | _ \<Rightarrow> False)
      else False)"



section \<open>Auxiliary facts\<close>

subsection \<open>Evaluation of the text helpers\<close>

lemma fmt_d_1: "fmt_d 1 = ''1''"
  by code_simp


lemma ToLower_query: "ToLower ul ''query'' = ''query''"
  by (simp add: ToLower_def isASCII_def lower_char_def)

lemma lower_QUERY: "map lower_char ''QUERY'' = ''query''"
  by code_simp

lemma ToLower_QUERY: "ToLower ul ''QUERY'' = ''query''"
  by (simp add: ToLower_def isASCII_def lower_QUERY del: list.map)

lemma lower_char_not_upper: "(of_char c :: nat) < 128 \<Longrightarrow> \<not> in_range 65 90 (lower_char c)"
  by (simp add: lower_char_def in_range_def)

lemma validName_Foo: "validName ''Foo''"
  by code_simp

lemma validName_bar: "validName ''bar''"
  by code_simp

lemma not_validName_1a: "\<not> validName ''1a''"
  by code_simp

subsection \<open>The loops with a separator\<close>








lemma Query_fields_loop_streams:
  "Query_fields_loop rfc fs =
     map_option (\<lambda>tss. concat (map (\<lambda>ts. ts @ ['','']) tss))
       (those (map (case_option None (Field_stringChan rfc)) fs))"
  by (induction fs rule: Query_fields_loop.induct) (simp_all split: option.splits)

subsection \<open>The name grammar\<close>

lemma validName_chars: "validName n \<Longrightarrow> c \<in> set n \<Longrightarrow> name_char c"
  by (cases n) (auto simp: name_char_def list_all_iff)

lemma validName_hd: "validName n \<Longrightarrow> name_start (hd n)"
  by (cases n) simp_all

lemma space_not_name_char: "\<not> name_char (CHR '' '')"
  by (simp add: name_char_def name_start_def)

lemma hyphen_not_name_char: "\<not> name_char (CHR ''-'')"
  by (simp add: name_char_def name_start_def)

lemma digit_not_name_start: "c \<in> set ''0123456789'' \<Longrightarrow> \<not> name_start c"
  by (auto simp: name_start_def)

subsection \<open>Validation stops at the first violation\<close>

lemma check_violations:
  "Field_check (f :: 't Field) = (case Field_violations f of [] \<Rightarrow> None | e # _ \<Rightarrow> Some e)"
  "Field_check_subfields (fs :: 't Field option list) =
     (case fields_violations fs of [] \<Rightarrow> None | e # _ \<Rightarrow> Some e)"
  by (induction f and fs rule: Field_check_Field_check_subfields.induct)
     (auto split: list.splits option.splits)

lemma StringChan_loop_subfields: "StringChan_loop fs = Field_check_subfields fs"
  by (induction fs rule: StringChan_loop.induct) (simp_all split: option.splits)

lemma nil_in_violations:
  "Field_has_nil (f :: 't Field) \<Longrightarrow> NilFieldErr \<in> set (Field_violations f)"
  "fields_have_nil (fs :: 't Field option list) \<Longrightarrow> NilFieldErr \<in> set (fields_violations fs)"
  by (induction f and fs rule: Field_has_nil_fields_have_nil.induct) auto

lemma StringChan_first_violation:
  "StringChan ul rfc q =
     (case Query_violations q of
        [] \<Rightarrow> (GoroutineChan (Query_stringChan ul rfc q), None)
      | e # _ \<Rightarrow> (ClosedChan, Some e))"
  by (auto simp: StringChan_def check_def checkName_def Query_violations_def
      StringChan_loop_subfields check_violations split: list.splits option.splits)

subsection \<open>Escaped text inside a JSON string literal\<close>


lemma json_rest_escape: "simple_escape e \<Longrightarrow> json_string_rest (BS # e # t) = json_string_rest t"
  by simp



lemma escape_quotes_Cons_plain: "c \<noteq> DQ \<Longrightarrow> escape_quotes (c # cs) = c # escape_quotes cs"
  by simp









subsection \<open>UTF-8 and the escaping of quotes\<close>


lemma utf8_wf_ascii_Cons: "(of_char c :: nat) < 128 \<Longrightarrow> utf8_wf (c # t) = utf8_wf t"
  by simp









section \<open>The claims\<close>

text \<open>
  Claim C1. The Query with operation type \<open>query\<close>, name \<open>Foo\<close> and the single field
  \<open>bar\<close> with the one integer argument \<open>n:1\<close> and no subfields passes validation, and
  the concatenation of the tokens of its render is \<open>query Foo{bar(n:1),}\<close>, with one
  separator after the lone field and before the closing brace. The keyword is sent in
  lowercase: the same Query with its type written \<open>QUERY\<close> sends the same tokens from
  the unexported \<open>stringChan\<close>, and no token of an ASCII operation type holds an
  upper-case letter. The tokens of any Query are the lowercase operation keyword, a
  space and the operation name when there is a name, \<open>{\<close>, the token stream of each
  top-level field followed by one separator, and \<open>}\<close>.
\<close>

theorem C1_render_query_Foo:
  "StringChan ul rfc
     (SetFields [Some (Field ''bar'' [] [ArgumentInt ''n'' 1] [])]
        (SetName ''Foo'' (MakeQuery ''query'')))
     = (GoroutineChan
          (Some [''query'', '' '', ''Foo'', ''{'',
                 ''bar'', ''('', ''n'', '':'', ''1'', '')'', '','', ''}'']), None)
   \<and> StringFromChan (fst (StringChan ul rfc
        (SetFields [Some (Field ''bar'' [] [ArgumentInt ''n'' 1] [])]
           (SetName ''Foo'' (MakeQuery ''query'')))))
     = Returns ''query Foo{bar(n:1),}''
   \<and> Query_stringChan ul rfc
        (SetFields [Some (Field ''bar'' [] [ArgumentInt ''n'' 1] [])]
           (SetName ''Foo'' (MakeQuery ''QUERY'')))
     = Some [''query'', '' '', ''Foo'', ''{'',
             ''bar'', ''('', ''n'', '':'', ''1'', '')'', '','', ''}'']
   \<and> (isASCII (Query_Type q) \<longrightarrow>
        list_all (\<lambda>c. \<not> in_range 65 90 c) (ToLower ul (Query_Type q))
        \<and> length (ToLower ul (Query_Type q)) = length (Query_Type q))
   \<and> Query_stringChan ul rfc q =
       map_option
         (\<lambda>tss. [ToLower ul (Query_Type q)]
                @ (if Query_Name q \<noteq> [] then ['' '', Query_Name q] else [])
                @ [''{''] @ concat (map (\<lambda>ts. ts @ ['','']) tss) @ [''}''])
         (those (map (case_option None (Field_stringChan rfc)) (Query_Fields q)))"
proof -
  have g: "Query_stringChan ul rfc q =
       map_option
         (\<lambda>tss. [ToLower ul (Query_Type q)]
                @ (if Query_Name q \<noteq> [] then ['' '', Query_Name q] else [])
                @ [''{''] @ concat (map (\<lambda>ts. ts @ ['','']) tss) @ [''}''])
         (those (map (case_option None (Field_stringChan rfc)) (Query_Fields q)))"
    by (simp add: Query_stringChan_def Query_fields_loop_streams split: option.splits)
  have l: "isASCII (Query_Type q) \<longrightarrow>
        list_all (\<lambda>c. \<not> in_range 65 90 c) (ToLower ul (Query_Type q))
        \<and> length (ToLower ul (Query_Type q)) = length (Query_Type q)"
    by (auto simp: ToLower_def isASCII_def list_all_iff lower_char_not_upper)
  have c: "StringChan ul rfc
     (SetFields [Some (Field ''bar'' [] [ArgumentInt ''n'' 1] [])]
        (SetName ''Foo'' (MakeQuery ''query'')))
     = (GoroutineChan
          (Some [''query'', '' '', ''Foo'', ''{'',
                 ''bar'', ''('', ''n'', '':'', ''1'', '')'', '','', ''}'']), None)"
    by (simp add: StringChan_def check_def checkName_def isValidOperationType_def
        SetFields_def SetName_def MakeQuery_def Query_stringChan_def ArgumentInt_def
        fmt_d_1 ToLower_query validName_Foo validName_bar del: validName.simps)
  have u: "Query_stringChan ul rfc
        (SetFields [Some (Field ''bar'' [] [ArgumentInt ''n'' 1] [])]
           (SetName ''Foo'' (MakeQuery ''QUERY'')))
     = Some [''query'', '' '', ''Foo'', ''{'',
             ''bar'', ''('', ''n'', '':'', ''1'', '')'', '','', ''}'']"
    by (simp add: SetFields_def SetName_def MakeQuery_def Query_stringChan_def
        ArgumentInt_def fmt_d_1 ToLower_QUERY)
  from c have "StringFromChan (fst (StringChan ul rfc
        (SetFields [Some (Field ''bar'' [] [ArgumentInt ''n'' 1] [])]
           (SetName ''Foo'' (MakeQuery ''query'')))))
     = Returns ''query Foo{bar(n:1),}''"
    by simp
  with c u l g show ?thesis
    by blast
qed

theorem C1_render_query_Foo_witness:
  "StringFromChan (fst (StringChan (\<lambda>s. s) (\<lambda>t :: unit. [])
        (SetFields [Some (Field ''bar'' [] [ArgumentInt ''n'' 1] [])]
           (SetName ''Foo'' (MakeQuery ''query'')))))
     = Returns ''query Foo{bar(n:1),}''
   \<and> Query_stringChan (\<lambda>s. s) (\<lambda>t :: unit. [])
        (SetFields [Some (Field ''bar'' [] [ArgumentInt ''n'' 1] [])]
           (SetName ''Foo'' (MakeQuery ''QUERY'')))
     = Some [''query'', '' '', ''Foo'', ''{'',
             ''bar'', ''('', ''n'', '':'', ''1'', '')'', '','', ''}'']
   \<and> isASCII (Query_Type (MakeQuery ''QUERY'' :: unit Query))
   \<and> list_all (\<lambda>c. \<not> in_range 65 90 c)
        (ToLower (\<lambda>s. s) (Query_Type (MakeQuery ''QUERY'' :: unit Query)))"
proof -
  have h: "isASCII (Query_Type (MakeQuery ''QUERY'' :: unit Query))"
    by (simp add: MakeQuery_def isASCII_def)
  from C1_render_query_Foo
    [where ul = "\<lambda>s. s" and rfc = "\<lambda>t :: unit. []" and q = "MakeQuery ''QUERY''"] h
  show ?thesis
    by blast
qed

text \<open>
  Claim C2. For each of the seven supported shapes (bool, []bool, int, []int, string,
  []string, time.Time) and every name, \<open>ArgumentAny\<close> returns the nil error and the
  Argument of the explicit constructor for that shape, so the rendered texts are equal.
\<close>

theorem C2_ArgumentAny_dispatch:
  "ArgumentAny name (GoBool b) = (ArgumentBool name b, None)
   \<and> ArgumentAny name (GoBoolSlice bs) = (ArgumentBoolSlice name bs, None)
   \<and> ArgumentAny name (GoInt n) = (ArgumentInt name n, None)
   \<and> ArgumentAny name (GoIntSlice ns) = (ArgumentIntSlice name ns, None)
   \<and> ArgumentAny name (GoString s) = (ArgumentString name s, None)
   \<and> ArgumentAny name (GoStringSlice ss) = (ArgumentStringSlice name ss, None)
   \<and> ArgumentAny name (GoTime t) = (ArgumentTime name t, None)
   \<and> rendered (Argument_stringChan rfc (fst (ArgumentAny name (GoBool b))))
       = rendered (Argument_stringChan rfc (ArgumentBool name b))
   \<and> rendered (Argument_stringChan rfc (fst (ArgumentAny name (GoBoolSlice bs))))
       = rendered (Argument_stringChan rfc (ArgumentBoolSlice name bs))
   \<and> rendered (Argument_stringChan rfc (fst (ArgumentAny name (GoInt n))))
       = rendered (Argument_stringChan rfc (ArgumentInt name n))
   \<and> rendered (Argument_stringChan rfc (fst (ArgumentAny name (GoIntSlice ns))))
       = rendered (Argument_stringChan rfc (ArgumentIntSlice name ns))
   \<and> rendered (Argument_stringChan rfc (fst (ArgumentAny name (GoString s))))
       = rendered (Argument_stringChan rfc (ArgumentString name s))
   \<and> rendered (Argument_stringChan rfc (fst (ArgumentAny name (GoStringSlice ss))))
       = rendered (Argument_stringChan rfc (ArgumentStringSlice name ss))
   \<and> rendered (Argument_stringChan rfc (fst (ArgumentAny name (GoTime t))))
       = rendered (Argument_stringChan rfc (ArgumentTime name t))"
  by simp

theorem C2_ArgumentAny_dispatch_witness:
  "ArgumentAny ''n'' (GoInt 1) = (ArgumentInt ''n'' 1 :: unit Argument, None)
   \<and> rendered (Argument_stringChan (\<lambda>t :: unit. []) (fst (ArgumentAny ''n'' (GoInt 1))))
       = Some ''n:1''"
  using C2_ArgumentAny_dispatch [of "''n''" True "[]" 1 "[]" "[]" "[]" "()" "\<lambda>t :: unit. []"]
  by (simp add: rendered_def ArgumentInt_def fmt_d_1)

text \<open>
  Claim C3. For every value whose runtime shape is outside the supported set,
  \<open>ArgumentAny\<close> returns the zero Argument (empty name, nil value) together with
  \<open>ArgumentTypeNotSupportedErr\<close> carrying that very value.
\<close>

theorem C3_ArgumentAny_unsupported:
  "\<not> supported v \<Longrightarrow>
     ArgumentAny name v = (Argument [] NilValue, Some (ArgumentTypeNotSupportedErr v))"
  by (cases v) simp_all

theorem C3_ArgumentAny_unsupported_witness:
  "\<not> supported (GoInt64 5 :: unit go_value)
   \<and> ArgumentAny ''n'' (GoInt64 5 :: unit go_value)
       = (Argument [] NilValue, Some (ArgumentTypeNotSupportedErr (GoInt64 5)))"
proof -
  have h: "\<not> supported (GoInt64 5 :: unit go_value)"
    by simp
  from C3_ArgumentAny_unsupported [OF h, of "''n''"] h show ?thesis
    by simp
qed



text \<open>
  Claim C5. \<open>checkName\<close> succeeds when the operation name is empty or matches the name
  grammar, and fails with \<open>InvalidNameErr\<close> carrying \<open>operationName\<close> and the offending
  text when the name is non-empty and does not match; a name with a leading digit, an
  embedded space or an embedded hyphen is such a name.
\<close>

theorem C5_checkName_grammar:
  "(Query_Name q = [] \<or> validName (Query_Name q) \<longrightarrow> checkName q = None)
   \<and> (Query_Name q \<noteq> [] \<and> \<not> validName (Query_Name q) \<longrightarrow>
        checkName q = Some (InvalidNameErr operationName (Query_Name q)))
   \<and> (Query_Name q \<noteq> [] \<and>
        (hd (Query_Name q) \<in> set ''0123456789'' \<or> CHR '' '' \<in> set (Query_Name q)
          \<or> CHR ''-'' \<in> set (Query_Name q)) \<longrightarrow>
        checkName q = Some (InvalidNameErr operationName (Query_Name q)))"
  using validName_chars [of "Query_Name q" "CHR '' ''"]
    validName_chars [of "Query_Name q" "CHR ''-''"]
    validName_hd [of "Query_Name q"] digit_not_name_start [of "hd (Query_Name q)"]
    space_not_name_char hyphen_not_name_char
  unfolding checkName_def by auto

theorem C5_checkName_grammar_witness:
  "checkName \<lparr>Query_Type = ''query'', Query_Name = ''Foo'', Query_Fields = []\<rparr>
     = (None :: unit error option)
   \<and> checkName \<lparr>Query_Type = ''query'', Query_Name = ''1a'', Query_Fields = []\<rparr>
     = Some (InvalidNameErr operationName ''1a'' :: unit error)"
  using
    C5_checkName_grammar
      [of "\<lparr>Query_Type = ''query'', Query_Name = ''Foo'', Query_Fields = []\<rparr> :: unit Query"]
    C5_checkName_grammar
      [of "\<lparr>Query_Type = ''query'', Query_Name = ''1a'', Query_Fields = []\<rparr> :: unit Query"]
    validName_Foo not_validName_1a
  by (simp del: validName.simps)

text \<open>
  Claim C6. For every Query whose operation type is empty or is not one of query,
  mutation, subscription, \<open>StringChan\<close> fails with \<open>InvalidOperationTypeErr\<close> carrying
  that type; the channel it returns is closed and delivers no token, and \<open>JsonBody\<close>
  returns the empty string with the same error.
\<close>

theorem C6_invalid_operation_type:
  "Query_Type q = [] \<or> Query_Type q \<notin> {''query'', ''mutation'', ''subscription''} \<Longrightarrow>
     StringChan ul rfc q = (ClosedChan, Some (InvalidOperationTypeErr (Query_Type q)))
     \<and> range_chan (fst (StringChan ul rfc q)) = Returns []
     \<and> JsonBody ul rfc q = Returns ([], Some (InvalidOperationTypeErr (Query_Type q)))"
  by (auto simp: StringChan_def check_def isValidOperationType_def JsonBody_def)

theorem C6_invalid_operation_type_witness:
  "StringChan (\<lambda>s. s) (\<lambda>t :: unit. [])
     \<lparr>Query_Type = ''Query'', Query_Name = ''Foo'', Query_Fields = []\<rparr>
     = (ClosedChan, Some (InvalidOperationTypeErr ''Query''))
   \<and> StringChan (\<lambda>s. s) (\<lambda>t :: unit. [])
     \<lparr>Query_Type = [], Query_Name = ''Foo'', Query_Fields = []\<rparr>
     = (ClosedChan, Some (InvalidOperationTypeErr []))"
  using
    C6_invalid_operation_type
      [of "\<lparr>Query_Type = ''Query'', Query_Name = ''Foo'', Query_Fields = []\<rparr> :: unit Query"
          "\<lambda>s. s" "\<lambda>t. []"]
    C6_invalid_operation_type
      [of "\<lparr>Query_Type = [], Query_Name = ''Foo'', Query_Fields = []\<rparr> :: unit Query"
          "\<lambda>s. s" "\<lambda>t. []"]
  by simp

text \<open>
  Claim C7, as stated: the quoted string renders as outer quote, backslash, quote, the
  content, backslash, quote, outer quote. It fails: the format string is a raw string
  literal, whose two backslashes before each inner quote are both sent. For the
  content \<open>s\<close> the rendered text is not the text of the claim.
\<close>

theorem C7_quoted_string_counterexample:
  "rendered (argumentValue_stringChan (\<lambda>t :: unit. []) (argQuotedString ''s''))
     \<noteq> Some ([DQ, BS, DQ] @ ''s'' @ [BS, DQ, DQ])
   \<and> rendered (argumentValue_stringChan (\<lambda>t :: unit. []) (argQuotedString ''s''))
     = Some ([DQ, BS, BS, DQ] @ ''s'' @ [BS, BS, DQ, DQ])"
  by (simp add: rendered_def fmt_escaped_quoted_def)

text \<open>
  Claim C7, amended. For every content \<open>s\<close>, the quoted string sends one token: outer
  quote, two backslashes, quote, the content unchanged, two backslashes, quote, outer
  quote; \<open>ArgumentQuotedString name s\<close> renders as the name, a colon and that token.
\<close>

theorem C7_quoted_string_double_escaped:
  "argumentValue_stringChan rfc (argQuotedString s) = Some [fmt_escaped_quoted s]
   \<and> rendered (argumentValue_stringChan rfc (argQuotedString s)) =
     Some ([DQ, BS, BS, DQ] @ s @ [BS, BS, DQ, DQ])
   \<and> rendered (Argument_stringChan rfc (ArgumentQuotedString name s)) =
     Some (name @ '':'' @ [DQ, BS, BS, DQ] @ s @ [BS, BS, DQ, DQ])"
  by (simp add: rendered_def ArgumentQuotedString_def fmt_escaped_quoted_def)

theorem C7_quoted_string_double_escaped_witness:
  "rendered (Argument_stringChan (\<lambda>t :: unit. []) (ArgumentQuotedString ''k'' ''s'')) =
     Some (''k:'' @ [DQ, BS, BS, DQ] @ ''s'' @ [BS, BS, DQ, DQ])"
  using C7_quoted_string_double_escaped [of "\<lambda>t :: unit. []" "''s''" "''k''"]
  by simp




text \<open>
  Claim C9, as stated: every Query with a nil field slot fails with \<open>NilFieldErr\<close>. It
  fails for a Query whose operation type is not valid: the operation type is checked
  before the fields, so the error is \<open>InvalidOperationTypeErr\<close>.
\<close>

theorem C9_nil_field_counterexample:
  "fields_have_nil
     (Query_Fields \<lparr>Query_Type = [], Query_Name = [], Query_Fields = [None :: unit Field option]\<rparr>)
   \<and> StringChan (\<lambda>s. s) (\<lambda>t. [])
       \<lparr>Query_Type = [], Query_Name = [], Query_Fields = [None :: unit Field option]\<rparr>
     = (ClosedChan, Some (InvalidOperationTypeErr []))
   \<and> snd (StringChan (\<lambda>s. s) (\<lambda>t. [])
       \<lparr>Query_Type = [], Query_Name = [], Query_Fields = [None :: unit Field option]\<rparr>)
     \<noteq> Some NilFieldErr"
  by (simp add: StringChan_def check_def isValidOperationType_def)

text \<open>
  Claim C9, amended. For every Query with a nil field slot, at the top level or in any
  field's subfield list, \<open>StringChan\<close> fails before any text is produced: the channel is
  closed and delivers no token, \<open>JsonBody\<close> returns the empty string, and the error is
  the first violation in the order of validation (operation type, operation name, then
  the fields depth-first, a name before the subfields). \<open>NilFieldErr\<close> is among the
  violations, so it is the error returned exactly when no invalid operation type and
  no invalid name comes before the nil slot.
\<close>

theorem C9_nil_field_first_violation:
  "fields_have_nil (Query_Fields q) \<Longrightarrow>
     NilFieldErr \<in> set (Query_violations q)
     \<and> StringChan ul rfc q = (ClosedChan, Some (hd (Query_violations q)))
     \<and> range_chan (fst (StringChan ul rfc q)) = Returns []
     \<and> JsonBody ul rfc q = Returns ([], Some (hd (Query_violations q)))"
proof -
  assume "fields_have_nil (Query_Fields q)"
  then have n: "NilFieldErr \<in> set (Query_violations q)"
    by (simp add: Query_violations_def nil_in_violations)
  then obtain e es where v: "Query_violations q = e # es"
    by (cases "Query_violations q") auto
  then have "StringChan ul rfc q = (ClosedChan, Some e)"
    by (simp add: StringChan_first_violation)
  with n v show ?thesis
    by (simp add: JsonBody_def)
qed

theorem C9_nil_field_first_violation_witness:
  "fields_have_nil
     (Query_Fields \<lparr>Query_Type = ''query'', Query_Name = ''Foo'',
        Query_Fields = [Some (Field ''bar'' [] [] [None :: unit Field option])]\<rparr>)
   \<and> StringChan (\<lambda>s. s) (\<lambda>t. [])
       \<lparr>Query_Type = ''query'', Query_Name = ''Foo'',
        Query_Fields = [Some (Field ''bar'' [] [] [None :: unit Field option])]\<rparr>
     = (ClosedChan, Some NilFieldErr)"
proof -
  let ?q = "\<lparr>Query_Type = ''query'', Query_Name = ''Foo'',
        Query_Fields = [Some (Field ''bar'' [] [] [None])]\<rparr> :: unit Query"
  have h: "fields_have_nil (Query_Fields ?q)"
    by simp
  have v: "Query_violations ?q = [NilFieldErr]"
    by (simp add: Query_violations_def isValidOperationType_def validName_Foo validName_bar
        del: validName.simps)
  from C9_nil_field_first_violation [OF h, of "\<lambda>s. s" "\<lambda>t. []"] v h show ?thesis
    by simp
qed

text \<open>
  Claim C10. Whenever \<open>StringChan\<close> returns an error, the channel it returns is not the
  nil channel: it has been made and closed, so a receive loop over it ends at once with
  no token.
\<close>

theorem C10_error_channel_closed:
  "snd (StringChan ul rfc q) \<noteq> None \<Longrightarrow>
     fst (StringChan ul rfc q) = ClosedChan
     \<and> fst (StringChan ul rfc q) \<noteq> NilChan
     \<and> range_chan (fst (StringChan ul rfc q)) = Returns []"
  by (auto simp: StringChan_def split: option.splits)

theorem C10_error_channel_closed_witness:
  "snd (StringChan (\<lambda>s. s) (\<lambda>t :: unit. [])
      \<lparr>Query_Type = ''query'', Query_Name = ''1a'', Query_Fields = []\<rparr>) \<noteq> None
   \<and> fst (StringChan (\<lambda>s. s) (\<lambda>t :: unit. [])
      \<lparr>Query_Type = ''query'', Query_Name = ''1a'', Query_Fields = []\<rparr>) = ClosedChan
   \<and> range_chan (fst (StringChan (\<lambda>s. s) (\<lambda>t :: unit. [])
      \<lparr>Query_Type = ''query'', Query_Name = ''1a'', Query_Fields = []\<rparr>)) = Returns []"
proof -
  let ?q = "\<lparr>Query_Type = ''query'', Query_Name = ''1a'', Query_Fields = []\<rparr> :: unit Query"
  have h: "snd (StringChan (\<lambda>s. s) (\<lambda>t. []) ?q) \<noteq> None"
    by (simp add: StringChan_def check_def checkName_def isValidOperationType_def
        not_validName_1a del: validName.simps)
  from C10_error_channel_closed [OF h] h show ?thesis
    by simp
qed

end
